theory Spec2Isabelle
  imports Main "HOL-Library.AList"
begin

section \<open>The meeting controller: data model\<close>

text \<open>
  The controller has five handlers (\<open>add\<close>, \<open>index\<close>, \<open>view\<close>, \<open>deleteData\<close>,
  \<open>deleteMany\<close>) over three collections of a document store: the meetings, and the
  collections named \<open>User\<close> and \<open>Contacts\<close> that the aggregation pipelines join against.
  A collection is a list of documents in the store's natural order. Object ids are
  natural numbers.
\<close>

type_synonym oid = nat

text \<open>
  An id that arrives as text (a path segment, an element of a JSON array) is either the
  text of an object id, or something the data-access layer cannot cast to one; the cast
  then throws, and the handler's \<open>catch\<close> branch answers.
\<close>

datatype raw_id = ObjectIdString oid | Uncastable string

datatype failure =
    CastError string
  | ValidationError string
  | DuplicateKey oid
  | QueryRejected string
  | MapInputNotArray
  | NotAString

fun castObjectId :: "raw_id \<Rightarrow> failure + oid" where
  "castObjectId (ObjectIdString i) = Inr i"
| "castObjectId (Uncastable v) = Inl (CastError v)"

text \<open>
  Modelled from the spec: the schemas of the three collections (model/schema/meeting,
  model/schema/user and the Contact schema are not among the sources). The field names
  are the ones the controller uses: \<open>createBy\<close>, \<open>attendes\<close>, \<open>deleted\<close>,
  \<open>firstName\<close>, \<open>lastName\<close>, \<open>role\<close>. A text field that a document does not have
  is \<open>None\<close>. A meeting always has one creator reference.
\<close>

record person =
  pid :: oid
  firstName :: "string option"
  lastName :: "string option"

record user = person +
  role :: string

type_synonym contact = person

record meeting =
  mid :: oid
  agenda :: "string option"
  dateTime :: "string option"
  timestamp :: nat
  location :: "string option"
  "notes" :: "string option"
  createBy :: oid
  attendes :: "oid list"
  deleted :: bool

record store =
  MeetingHistory :: "meeting list"
  User :: "user list"
  Contacts :: "contact list"

text \<open>The body of a create request: every field may be absent.\<close>

record meeting_input =
  b_agenda :: "string option"
  b_dateTime :: "string option"
  b_timestamp :: "nat option"
  b_location :: "string option"
  b_notes :: "string option"
  b_createBy :: "oid option"
  b_attendes :: "oid list"
  b_deleted :: "bool option"

text \<open>
  The parsed query string of a request is an object: keys with values that are strings,
  arrays or nested objects. The handler itself stores a boolean and an object id in it.
\<close>

datatype qvalue =
    QStr string
  | QBool bool
  | QOid oid
  | QArr "qvalue list"
  | QObj "(string \<times> qvalue) list"

type_synonym query = "(string \<times> qvalue) list"

text \<open>
  The request: \<open>userId\<close> is \<open>req.user.userId\<close>, the identity the authentication
  middleware resolved; \<open>params_id\<close> is \<open>req.params.id\<close>; \<open>body\<close> is \<open>req.body\<close>, a
  meeting body for \<open>add\<close> and an array of ids for \<open>deleteMany\<close>.
\<close>

record 'b request =
  userId :: oid
  params_id :: raw_id
  query :: query
  body :: 'b

text \<open>What the handlers send back.\<close>

record summary =
  r_id :: oid
  r_agenda :: "string option"
  r_dateTime :: "string option"
  r_timestamp :: nat
  createdByName :: "string option"

record detail = summary +
  r_location :: "string option"
  attendesNames :: "string option list option"
  r_notes :: "string option"

record update_summary =
  matchedCount :: nat
  modifiedCount :: nat

datatype payload =
    Doc meeting
  | Failed failure string
  | Summaries "summary list"
  | Text string
  | Message string
  | Detail detail
  | ErrorMessage failure
  | ErrorText string
  | Updated string "meeting option"
  | UpdatedMany string update_summary

record response =
  status :: nat
  payload :: payload

section \<open>The document store\<close>

subsection \<open>Single-document operations\<close>

definition findById :: "('a person_scheme) list \<Rightarrow> oid \<Rightarrow> 'a person_scheme option" where
  "findById coll i = find (\<lambda>p. pid p = i) coll"

definition findOne :: "meeting list \<Rightarrow> oid \<Rightarrow> meeting option" where
  "findOne coll i = find (\<lambda>m. mid m = i) coll"

text \<open>
  \<open>new MeetingHistory(body)\<close> followed by \<open>save()\<close>. Modelled from the spec: what
  the absent schema makes of the body. The fields of the body are taken as they are,
  \<open>timestamp\<close> (creation time \<open>now\<close>) and \<open>deleted\<close> (false) get their defaults
  when absent, and the document gets the fresh id \<open>newId\<close>. Saving fails when the
  creator reference is missing and when the id is already in the collection.
\<close>

definition save :: "store \<Rightarrow> nat \<Rightarrow> oid \<Rightarrow> meeting_input \<Rightarrow> failure + store \<times> meeting" where
  "save s now newId b =
     (case b_createBy b of
        None \<Rightarrow> Inl (ValidationError ''createBy'')
      | Some c \<Rightarrow>
          if newId \<in> mid ` set (MeetingHistory s) then Inl (DuplicateKey newId)
          else
            let doc = \<lparr> mid = newId, agenda = b_agenda b, dateTime = b_dateTime b,
                        timestamp = (case b_timestamp b of None \<Rightarrow> now | Some t \<Rightarrow> t),
                        location = b_location b, notes = b_notes b, createBy = c,
                        attendes = b_attendes b,
                        deleted = (case b_deleted b of None \<Rightarrow> False | Some d \<Rightarrow> d) \<rparr>
            in Inr (s\<lparr>MeetingHistory := MeetingHistory s @ [doc]\<rparr>, doc))"

text \<open>
  \<open>findByIdAndUpdate(id, {deleted: true})\<close>: the first document with that id is
  updated, and the document as it was before the update is returned (null when there is
  none).
\<close>

fun set_deleted_first :: "oid \<Rightarrow> meeting list \<Rightarrow> meeting list" where
  "set_deleted_first i [] = []"
| "set_deleted_first i (m # ms) =
     (if mid m = i then m\<lparr>deleted := True\<rparr> # ms else m # set_deleted_first i ms)"

definition findByIdAndUpdate :: "store \<Rightarrow> oid \<Rightarrow> store \<times> meeting option" where
  "findByIdAndUpdate s i =
     (s\<lparr>MeetingHistory := set_deleted_first i (MeetingHistory s)\<rparr>,
      findOne (MeetingHistory s) i)"

text \<open>
  \<open>updateMany({_id: {$in: ids}}, {$set: {deleted: true}})\<close>: every document whose id
  is among \<open>ids\<close> is updated; the outcome counts the documents matched and the documents
  the update changed.
\<close>

definition updateMany :: "store \<Rightarrow> oid list \<Rightarrow> store \<times> update_summary" where
  "updateMany s ids =
     (s\<lparr>MeetingHistory :=
          map (\<lambda>m. if mid m \<in> set ids then m\<lparr>deleted := True\<rparr> else m) (MeetingHistory s)\<rparr>,
      \<lparr> matchedCount = length [m \<leftarrow> MeetingHistory s. mid m \<in> set ids],
        modifiedCount = length [m \<leftarrow> MeetingHistory s. mid m \<in> set ids \<and> \<not> deleted m] \<rparr>)"

subsection \<open>Aggregation stages\<close>

text \<open>The first failure of a stage fails the whole pipeline.\<close>

fun traverse :: "('a \<Rightarrow> failure + 'b) \<Rightarrow> 'a list \<Rightarrow> failure + 'b list" where
  "traverse f [] = Inr []"
| "traverse f (x # xs) =
     (case f x of
        Inl e \<Rightarrow> Inl e
      | Inr y \<Rightarrow> (case traverse f xs of Inl e \<Rightarrow> Inl e | Inr ys \<Rightarrow> Inr (y # ys)))"

text \<open>
  \<open>$match\<close> with a filter object: the top-level entries are conjoined. An entry
  \<open>field: scalar\<close> holds of a document when the field has that value (for the array
  field \<open>attendes\<close>, when an element has it); values are compared as they are, a string
  never equals an object id, a boolean or a date. A key that starts with \<open>$\<close> is an
  operator, and a value that is an array or an object is an operator expression or an
  embedded document: what the store makes of those is the parameter \<open>ops\<close>, which either
  rejects the entry or gives its meaning.
\<close>

type_synonym operators = "string \<Rightarrow> qvalue \<Rightarrow> failure + (meeting \<Rightarrow> bool)"

fun field_is :: "meeting \<Rightarrow> string \<Rightarrow> qvalue \<Rightarrow> bool" where
  "field_is m k (QStr v) =
     (if k = ''agenda'' then agenda m = Some v
      else if k = ''dateTime'' then dateTime m = Some v
      else if k = ''location'' then location m = Some v
      else if k = ''notes'' then notes m = Some v
      else False)"
| "field_is m k (QBool v) = (k = ''deleted'' \<and> deleted m = v)"
| "field_is m k (QOid v) =
     (if k = ''_id'' then mid m = v
      else if k = ''createBy'' then createBy m = v
      else if k = ''attendes'' then v \<in> set (attendes m)
      else False)"
| "field_is m k (QArr vs) = False"
| "field_is m k (QObj kvs) = False"

fun is_scalar :: "qvalue \<Rightarrow> bool" where
  "is_scalar (QArr vs) = False"
| "is_scalar (QObj kvs) = False"
| "is_scalar v = True"

definition is_operator :: "string \<Rightarrow> bool" where
  "is_operator k = (case k of [] \<Rightarrow> False | c # cs \<Rightarrow> c = CHR ''$'')"

definition entry :: "operators \<Rightarrow> string \<times> qvalue \<Rightarrow> failure + (meeting \<Rightarrow> bool)" where
  "entry ops kv =
     (if is_operator (fst kv) \<or> \<not> is_scalar (snd kv) then ops (fst kv) (snd kv)
      else Inr (\<lambda>m. field_is m (fst kv) (snd kv)))"

definition match :: "operators \<Rightarrow> query \<Rightarrow> meeting list \<Rightarrow> failure + meeting list" where
  "match ops q coll =
     (case traverse (entry ops) q of
        Inl e \<Rightarrow> Inl e
      | Inr ps \<Rightarrow> Inr [m \<leftarrow> coll. list_all (\<lambda>p. p m) ps])"

text \<open>
  \<open>$lookup\<close> stores in a field the array of the foreign documents that match, in the
  foreign collection's order. \<open>$unwind\<close> with \<open>preserveNullAndEmptyArrays\<close> replaces a
  document by one copy per element of the array, where the field now holds that element;
  a document whose field is missing or is the empty array comes out once, without the
  field; a field that is not an array counts as a one-element array.
\<close>

datatype 'a joined = Absent | Single 'a | Several "'a list"

definition lookup :: "('a person_scheme) list \<Rightarrow> oid list \<Rightarrow> 'a person_scheme joined" where
  "lookup foreign refs = Several [p \<leftarrow> foreign. pid p \<in> set refs]"

fun unwind :: "'a joined \<Rightarrow> 'a joined list" where
  "unwind Absent = [Absent]"
| "unwind (Single x) = [Single x]"
| "unwind (Several []) = [Absent]"
| "unwind (Several (x # xs)) = map Single (x # xs)"

text \<open>
  \<open>$concat\<close> is null as soon as one argument is null or missing, and \<open>$toString\<close>
  of a missing field is null. Both refuse an array.
\<close>

fun concat_strings :: "string option list \<Rightarrow> string option" where
  "concat_strings [] = Some []"
| "concat_strings (None # xs) = None"
| "concat_strings (Some x # xs) = map_option ((@) x) (concat_strings xs)"

definition fullName :: "'a person_scheme \<Rightarrow> string option" where
  "fullName p = concat_strings [firstName p, Some '' '', lastName p]"

fun createdByName_expr :: "user joined \<Rightarrow> failure + string option" where
  "createdByName_expr Absent = Inr None"
| "createdByName_expr (Single u) = Inr (fullName u)"
| "createdByName_expr (Several us) = Inl NotAString"

text \<open>
  \<open>$map\<close> is null when its input is null or missing, and refuses an input that is not
  an array.
\<close>

fun attendesNames_expr :: "contact joined \<Rightarrow> failure + string option list option" where
  "attendesNames_expr Absent = Inr None"
| "attendesNames_expr (Single c) = Inl MapInputNotArray"
| "attendesNames_expr (Several cs) = Inr (Some (map fullName cs))"

section \<open>The handlers\<close>

subsection \<open>add\<close>

definition add :: "store \<Rightarrow> nat \<Rightarrow> oid \<Rightarrow> meeting_input request \<Rightarrow> store \<times> response" where
  "add s now newId req =
     (case save s now newId (body req) of
        Inl err \<Rightarrow> (s, \<lparr> status = 400, payload = Failed err ''Failed to create'' \<rparr>)
      | Inr (s', result) \<Rightarrow> (s', \<lparr> status = 200, payload = Doc result \<rparr>))"

subsection \<open>index\<close>

text \<open>
  The effective filter: \<open>deleted\<close> is set to false in the caller's query, and unless
  the actor's user document has the role \<open>superAdmin\<close>, \<open>createBy\<close> is set to the
  actor's id.
\<close>

definition index_query :: "store \<Rightarrow> 'b request \<Rightarrow> query" where
  "index_query s req =
     (let query = AList.update ''deleted'' (QBool False) (query req);
          user = findById (User s) (userId req)
      in if map_option role user \<noteq> Some ''superAdmin''
         then AList.update ''createBy'' (QOid (userId req)) query
         else query)"

definition index_row :: "store \<Rightarrow> meeting \<Rightarrow> (meeting \<times> user joined) list" where
  "index_row s m = map (Pair m) (unwind (lookup (User s) [createBy m]))"

definition index_project :: "meeting \<times> user joined \<Rightarrow> failure + summary" where
  "index_project row =
     (case createdByName_expr (snd row) of
        Inl e \<Rightarrow> Inl e
      | Inr n \<Rightarrow>
          Inr \<lparr> r_id = mid (fst row), r_agenda = agenda (fst row),
                r_dateTime = dateTime (fst row), r_timestamp = timestamp (fst row),
                createdByName = n \<rparr>)"

definition index_aggregate :: "store \<Rightarrow> operators \<Rightarrow> query \<Rightarrow> failure + summary list" where
  "index_aggregate s ops q =
     (case match ops q (MeetingHistory s) of
        Inl e \<Rightarrow> Inl e
      | Inr ms \<Rightarrow> traverse index_project (concat (map (index_row s) ms)))"

definition index :: "store \<Rightarrow> operators \<Rightarrow> 'b request \<Rightarrow> response" where
  "index s ops req =
     (case index_aggregate s ops (index_query s req) of
        Inr result \<Rightarrow> \<lparr> status = 200, payload = Summaries result \<rparr>
      | Inl error \<Rightarrow> \<lparr> status = 500, payload = Text ''Internal Server Error'' \<rparr>)"

subsection \<open>view\<close>

definition view_rows :: "store \<Rightarrow> meeting \<Rightarrow> (meeting \<times> user joined \<times> contact joined) list" where
  "view_rows s m =
     concat (map (\<lambda>u. map (\<lambda>c. (m, u, c)) (unwind (lookup (Contacts s) (attendes m))))
                 (unwind (lookup (User s) [createBy m])))"

definition view_project :: "meeting \<times> user joined \<times> contact joined \<Rightarrow> failure + detail" where
  "view_project row =
     (case row of (m, u, c) \<Rightarrow>
        (case createdByName_expr u of
           Inl e \<Rightarrow> Inl e
         | Inr n \<Rightarrow>
             (case attendesNames_expr c of
                Inl e \<Rightarrow> Inl e
              | Inr ns \<Rightarrow>
                  Inr \<lparr> r_id = mid m, r_agenda = agenda m, r_dateTime = dateTime m,
                        r_timestamp = timestamp m, createdByName = n,
                        r_location = location m, attendesNames = ns,
                        r_notes = notes m \<rparr>)))"

definition view_aggregate :: "store \<Rightarrow> oid \<Rightarrow> failure + detail list" where
  "view_aggregate s i =
     traverse view_project (concat (map (view_rows s) [m \<leftarrow> MeetingHistory s. mid m = i]))"

definition view :: "store \<Rightarrow> 'b request \<Rightarrow> response" where
  "view s req =
     (case castObjectId (params_id req) of
        Inl err \<Rightarrow> \<lparr> status = 400, payload = ErrorMessage err \<rparr>
      | Inr i \<Rightarrow>
          (case findOne (MeetingHistory s) i of
             None \<Rightarrow> \<lparr> status = 404, payload = Message ''No meeting found.'' \<rparr>
           | Some response \<Rightarrow>
               (case view_aggregate s (mid response) of
                  Inl err \<Rightarrow> \<lparr> status = 400, payload = ErrorMessage err \<rparr>
                | Inr [] \<Rightarrow>
                    \<lparr> status = 404, payload = Message ''No data found for this meeting.'' \<rparr>
                | Inr (r # rs) \<Rightarrow> \<lparr> status = 200, payload = Detail r \<rparr>)))"

subsection \<open>deleteData and deleteMany\<close>

definition deleteData :: "store \<Rightarrow> 'b request \<Rightarrow> store \<times> response" where
  "deleteData s req =
     (case castObjectId (params_id req) of
        Inl err \<Rightarrow> (s, \<lparr> status = 400, payload = ErrorText ''Failed to delete meeting'' \<rparr>)
      | Inr i \<Rightarrow>
          (case findByIdAndUpdate s i of
             (s', result) \<Rightarrow>
               (s', \<lparr> status = 200,
                      payload = Updated ''Meeting deleted successfully'' result \<rparr>)))"

definition deleteMany :: "store \<Rightarrow> raw_id list request \<Rightarrow> store \<times> response" where
  "deleteMany s req =
     (case traverse castObjectId (body req) of
        Inl err \<Rightarrow> (s, \<lparr> status = 400, payload = ErrorText ''Failed to delete meetings'' \<rparr>)
      | Inr ids \<Rightarrow>
          (case updateMany s ids of
             (s', result) \<Rightarrow>
               (s', \<lparr> status = 200,
                      payload = UpdatedMany ''Meetings deleted successfully'' result \<rparr>)))"

section \<open>Example stores and requests\<close>

text \<open>
  Two users (one of them a \<open>superAdmin\<close>), two contacts, and a few meeting bodies and
  stored meetings, for evaluating the handlers.
\<close>

definition ann :: user where
  "ann = \<lparr> pid = 1, firstName = Some ''Ann'', lastName = Some ''Lee'', role = ''user'' \<rparr>"

definition root :: user where
  "root = \<lparr> pid = 2, firstName = Some ''Rae'', lastName = Some ''Root'', role = ''superAdmin'' \<rparr>"

definition bo :: contact where
  "bo = \<lparr> pid = 11, firstName = Some ''Bo'', lastName = Some ''Chen'' \<rparr>"

definition cy :: contact where
  "cy = \<lparr> pid = 12, firstName = Some ''Cy'', lastName = Some ''Diaz'' \<rparr>"

definition store0 :: store where
  "store0 = \<lparr> MeetingHistory = [], User = [ann, root], Contacts = [bo, cy] \<rparr>"

definition sync_body :: meeting_input where
  "sync_body =
     \<lparr> b_agenda = Some ''Sync'', b_dateTime = Some ''2024-01-01T10:00:00Z'',
       b_timestamp = None, b_location = None, b_notes = None, b_createBy = Some 1,
       b_attendes = [11, 12], b_deleted = None \<rparr>"

definition retro_body :: meeting_input where
  "retro_body =
     \<lparr> b_agenda = Some ''Retro'', b_dateTime = Some ''2024-02-02T09:30:00Z'',
       b_timestamp = None, b_location = Some ''Room 4'', b_notes = Some ''Bring charts'',
       b_createBy = Some 1, b_attendes = [12], b_deleted = None \<rparr>"

definition solo_body :: meeting_input where
  "solo_body =
     \<lparr> b_agenda = Some ''Plan'', b_dateTime = Some ''2024-03-03T08:00:00Z'',
       b_timestamp = None, b_location = Some ''Desk'', b_notes = None,
       b_createBy = Some 1, b_attendes = [], b_deleted = None \<rparr>"

definition meeting_of :: "oid \<Rightarrow> oid \<Rightarrow> bool \<Rightarrow> meeting" where
  "meeting_of i c d =
     \<lparr> mid = i, agenda = Some ''Weekly'', dateTime = None, timestamp = 0, location = None,
       notes = None, createBy = c, attendes = [], deleted = d \<rparr>"

definition store1 :: store where
  "store1 = \<lparr> MeetingHistory = [meeting_of 7 1 False, meeting_of 8 2 False, meeting_of 9 1 True],
              User = [ann, root], Contacts = [bo, cy] \<rparr>"

definition store2 :: store where
  "store2 = \<lparr> MeetingHistory = [(meeting_of 7 1 False)\<lparr>attendes := [11]\<rparr>],
              User = [ann, root], Contacts = [bo, cy] \<rparr>"

definition request :: "oid \<Rightarrow> raw_id \<Rightarrow> query \<Rightarrow> 'b \<Rightarrow> 'b request" where
  "request a i q b = \<lparr> userId = a, params_id = i, query = q, body = b \<rparr>"

text \<open>A store that rejects every operator entry of a filter.\<close>

definition reject :: operators where
  "reject k v = Inl (QueryRejected k)"

text \<open>
  The row that \<open>view\<close> sends for a meeting none of whose attendee references matches a
  contact, given what the creator lookup left in \<open>createdByData\<close>.
\<close>

fun detail_of :: "meeting \<Rightarrow> user joined \<Rightarrow> detail" where
  "detail_of m u =
     \<lparr> r_id = mid m, r_agenda = agenda m, r_dateTime = dateTime m, r_timestamp = timestamp m,
       createdByName = (case u of Single p \<Rightarrow> fullName p | _ \<Rightarrow> None),
       r_location = location m, attendesNames = None, r_notes = notes m \<rparr>"

lemmas fixtures = ann_def root_def bo_def cy_def store0_def store1_def store2_def
  sync_body_def retro_body_def solo_body_def meeting_of_def request_def reject_def

lemmas add_defs = add_def save_def Let_def

lemmas view_defs = view_def view_aggregate_def view_rows_def view_project_def lookup_def
  findOne_def fullName_def

lemmas index_defs = index_def index_aggregate_def index_query_def index_row_def
  index_project_def match_def entry_def is_operator_def lookup_def findById_def fullName_def
  Let_def

section \<open>Facts about the store operations\<close>

lemma traverse_castObjectId: "traverse castObjectId (map ObjectIdString ids) = Inr ids"
  by (induction ids) simp_all

lemma traverse_Inr_D:
  "traverse f xs = Inr ys \<Longrightarrow> y \<in> set ys \<Longrightarrow> \<exists>x \<in> set xs. f x = Inr y"
proof (induction xs arbitrary: ys)
  case Nil
  then show ?case by simp
next
  case (Cons x xs)
  then show ?case by (auto split: sum.splits)
qed

lemma traverse_Inr_all:
  "traverse f xs = Inr ys \<Longrightarrow> x \<in> set xs \<Longrightarrow> \<exists>y \<in> set ys. f x = Inr y"
proof (induction xs arbitrary: ys)
  case Nil
  then show ?case by simp
next
  case (Cons x xs)
  then show ?case by (auto split: sum.splits)
qed

lemma findOne_None_iff: "findOne ms i = None \<longleftrightarrow> i \<notin> mid ` set ms"
  by (auto simp: findOne_def find_None_iff)

lemma set_deleted_first_absent: "i \<notin> mid ` set ms \<Longrightarrow> set_deleted_first i ms = ms"
  by (induction ms) auto

lemma set_deleted_first_twice:
  "set_deleted_first i (set_deleted_first i ms) = set_deleted_first i ms"
  by (induction ms) auto

lemma findOne_set_deleted_first:
  "findOne (set_deleted_first i ms) i = map_option (\<lambda>m. m\<lparr>deleted := True\<rparr>) (findOne ms i)"
  by (induction ms) (auto simp: findOne_def)

lemma find_appended:
  "\<not> (\<exists>x \<in> set xs. P x) \<Longrightarrow> P y \<Longrightarrow> find P (xs @ [y]) = Some y"
  by (induction xs) auto

lemma in_set_update: "(k, v) \<in> set (AList.update k v al)"
  by (induction al) auto

lemma in_set_update_other:
  "(k, v) \<in> set al \<Longrightarrow> k \<noteq> k' \<Longrightarrow> (k, v) \<in> set (AList.update k' v' al)"
  by (induction al) auto

lemma unwind_nonempty: "unwind j \<noteq> []"
  by (cases j rule: unwind.cases) simp_all

lemma unwind_members: "x \<in> set (unwind j) \<Longrightarrow> x = Absent \<or> (\<exists>y. x = Single y)"
  by (cases j rule: unwind.cases) auto

text \<open>
  A document that comes out of \<open>$match\<close> is in the collection and satisfies every
  plain \<open>field: scalar\<close> entry of the filter, whatever the other entries are.
\<close>

lemma match_sound:
  assumes "match ops q coll = Inr ms" and "m \<in> set ms"
    and "(k, v) \<in> set q" and "\<not> is_operator k" and "is_scalar v"
  shows "m \<in> set coll \<and> field_is m k v"
proof -
  from assms(1) obtain ps where ps: "traverse (entry ops) q = Inr ps"
    and ms: "ms = [m \<leftarrow> coll. list_all (\<lambda>p. p m) ps]"
    by (auto simp: match_def split: sum.splits)
  from traverse_Inr_all [OF ps assms(3)] obtain p where p: "p \<in> set ps" "entry ops (k, v) = Inr p"
    by blast
  from p(2) assms(4,5) have "p = (\<lambda>m. field_is m k v)"
    by (simp add: entry_def)
  with p(1) ms assms(2) show ?thesis
    by (auto simp: list_all_iff)
qed

section \<open>Soft delete\<close>

lemma deleteData_params:
  "params_id req = ObjectIdString i \<Longrightarrow>
   deleteData s req =
     (s\<lparr>MeetingHistory := set_deleted_first i (MeetingHistory s)\<rparr>,
      \<lparr> status = 200,
        payload = Updated ''Meeting deleted successfully'' (findOne (MeetingHistory s) i) \<rparr>)"
  by (simp add: deleteData_def findByIdAndUpdate_def)

text \<open>
  Claim C5. Soft-delete-one is idempotent: for a request whose path carries a meeting
  id, \<open>deleteData\<close> run twice in sequence answers 200 both times, the second run leaves
  the store as the first run left it, and the record with that id (when there is one) is
  the record as it was with \<open>deleted\<close> equal to true.
\<close>

theorem deleteData_idempotent:
  assumes "params_id req = ObjectIdString i"
  shows "status (snd (deleteData s req)) = 200
       \<and> status (snd (deleteData (fst (deleteData s req)) req)) = 200
       \<and> fst (deleteData (fst (deleteData s req)) req) = fst (deleteData s req)
       \<and> findOne (MeetingHistory (fst (deleteData (fst (deleteData s req)) req))) i =
           map_option (\<lambda>m. m\<lparr>deleted := True\<rparr>) (findOne (MeetingHistory s) i)"
  by (simp add: deleteData_params [OF assms] set_deleted_first_twice findOne_set_deleted_first)

theorem deleteData_idempotent_witness:
  "params_id (request 2 (ObjectIdString 7) [] ()) = ObjectIdString 7
   \<and> status (snd (deleteData store1 (request 2 (ObjectIdString 7) [] ()))) = 200
   \<and> status (snd (deleteData (fst (deleteData store1 (request 2 (ObjectIdString 7) [] ())))
                     (request 2 (ObjectIdString 7) [] ()))) = 200
   \<and> findOne (MeetingHistory (fst (deleteData
                (fst (deleteData store1 (request 2 (ObjectIdString 7) [] ())))
                (request 2 (ObjectIdString 7) [] ())))) 7 = Some (meeting_of 7 1 True)"
  using deleteData_idempotent
    [where req = "request 2 (ObjectIdString 7) [] ()" and i = 7 and s = store1]
  by (simp add: fixtures findOne_def deleteData_def findByIdAndUpdate_def)

text \<open>
  Claim C7. For every id, \<open>deleteData\<close> answers 200 with the message
  \<open>Meeting deleted successfully\<close> and the outcome of the update, which is the record
  as it was before, or null when no record has that id; in that case the store is left as
  it was. No request makes \<open>deleteData\<close> answer 404 (a path segment that is not an
  object id gets the 400 of the \<open>catch\<close> branch).
\<close>

theorem deleteData_missing:
  "deleteData s (req\<lparr>params_id := ObjectIdString i\<rparr>) =
     (s\<lparr>MeetingHistory := set_deleted_first i (MeetingHistory s)\<rparr>,
      \<lparr> status = 200,
        payload = Updated ''Meeting deleted successfully'' (findOne (MeetingHistory s) i) \<rparr>)
   \<and> (i \<notin> mid ` set (MeetingHistory s) \<longrightarrow>
        deleteData s (req\<lparr>params_id := ObjectIdString i\<rparr>) =
          (s, \<lparr> status = 200, payload = Updated ''Meeting deleted successfully'' None \<rparr>))
   \<and> status (snd (deleteData s req)) \<noteq> 404"
proof (intro conjI impI)
  show "deleteData s (req\<lparr>params_id := ObjectIdString i\<rparr>) =
     (s\<lparr>MeetingHistory := set_deleted_first i (MeetingHistory s)\<rparr>,
      \<lparr> status = 200,
        payload = Updated ''Meeting deleted successfully'' (findOne (MeetingHistory s) i) \<rparr>)"
    by (simp add: deleteData_params)
next
  assume "i \<notin> mid ` set (MeetingHistory s)"
  then show "deleteData s (req\<lparr>params_id := ObjectIdString i\<rparr>) =
          (s, \<lparr> status = 200, payload = Updated ''Meeting deleted successfully'' None \<rparr>)"
    by (simp add: deleteData_params set_deleted_first_absent findOne_None_iff [THEN iffD2])
next
  show "status (snd (deleteData s req)) \<noteq> 404"
    by (cases "params_id req") (simp_all add: deleteData_def findByIdAndUpdate_def)
qed

theorem deleteData_missing_witness:
  "5 \<notin> mid ` set (MeetingHistory store1)
   \<and> deleteData store1 (request 1 (ObjectIdString 5) [] ()) =
       (store1, \<lparr> status = 200, payload = Updated ''Meeting deleted successfully'' None \<rparr>)
   \<and> status (snd (deleteData store1 (request 1 (Uncastable ''abc'') [] ()))) \<noteq> 404"
  using deleteData_missing [where s = store1 and req = "request 1 (ObjectIdString 5) [] ()" and i = 5]
    deleteData_missing [where s = store1 and req = "request 1 (Uncastable ''abc'') [] ()" and i = 5]
  by (simp add: fixtures)

text \<open>
  Claim C8. For every array of ids in the body, \<open>deleteMany\<close> sets \<open>deleted\<close> to
  true on exactly the stored records whose id is in the array and leaves every other
  record and field as it was; it answers 200 with the message
  \<open>Meetings deleted successfully\<close> and the summary of the bulk update, which holds the
  number of records matched and the number changed and nothing per id. Ids that match no
  record are ignored: appending them to the array changes neither the store nor the
  answer.
\<close>

theorem deleteMany_exact:
  assumes "body req = map ObjectIdString ids"
  shows "deleteMany s req =
           (s\<lparr>MeetingHistory :=
                map (\<lambda>m. m\<lparr>deleted := deleted m \<or> mid m \<in> set ids\<rparr>) (MeetingHistory s)\<rparr>,
            \<lparr> status = 200,
              payload = UpdatedMany ''Meetings deleted successfully''
                \<lparr> matchedCount = length [m \<leftarrow> MeetingHistory s. mid m \<in> set ids],
                  modifiedCount =
                    length [m \<leftarrow> MeetingHistory s. mid m \<in> set ids \<and> \<not> deleted m] \<rparr> \<rparr>)
       \<and> (set extra \<inter> mid ` set (MeetingHistory s) = {} \<longrightarrow>
            deleteMany s (req\<lparr>body := map ObjectIdString (ids @ extra)\<rparr>) = deleteMany s req)"
proof -
  have eq: "(\<lambda>m. if mid m \<in> set js then m\<lparr>deleted := True\<rparr> else m) =
            (\<lambda>m. m\<lparr>deleted := deleted m \<or> mid m \<in> set js\<rparr>)" for js
    by (rule ext) simp
  have run: "deleteMany s (r\<lparr>body := map ObjectIdString js\<rparr>) =
           (s\<lparr>MeetingHistory :=
                map (\<lambda>m. m\<lparr>deleted := deleted m \<or> mid m \<in> set js\<rparr>) (MeetingHistory s)\<rparr>,
            \<lparr> status = 200,
              payload = UpdatedMany ''Meetings deleted successfully''
                \<lparr> matchedCount = length [m \<leftarrow> MeetingHistory s. mid m \<in> set js],
                  modifiedCount =
                    length [m \<leftarrow> MeetingHistory s. mid m \<in> set js \<and> \<not> deleted m] \<rparr> \<rparr>)"
    for js and r :: "raw_id list request"
    by (simp add: deleteMany_def traverse_castObjectId updateMany_def eq)
  from assms have req: "req = req\<lparr>body := map ObjectIdString ids\<rparr>"
    by simp
  have first: "deleteMany s req =
           (s\<lparr>MeetingHistory :=
                map (\<lambda>m. m\<lparr>deleted := deleted m \<or> mid m \<in> set ids\<rparr>) (MeetingHistory s)\<rparr>,
            \<lparr> status = 200,
              payload = UpdatedMany ''Meetings deleted successfully''
                \<lparr> matchedCount = length [m \<leftarrow> MeetingHistory s. mid m \<in> set ids],
                  modifiedCount =
                    length [m \<leftarrow> MeetingHistory s. mid m \<in> set ids \<and> \<not> deleted m] \<rparr> \<rparr>)"
    by (subst req) (rule run)
  have second: "deleteMany s (req\<lparr>body := map ObjectIdString (ids @ extra)\<rparr>) = deleteMany s req"
    if "set extra \<inter> mid ` set (MeetingHistory s) = {}"
  proof -
    from that have "mid m \<in> set (ids @ extra) \<longleftrightarrow> mid m \<in> set ids"
      if "m \<in> set (MeetingHistory s)" for m
      using that by auto
    then have "map (\<lambda>m. m\<lparr>deleted := deleted m \<or> mid m \<in> set (ids @ extra)\<rparr>) (MeetingHistory s) =
               map (\<lambda>m. m\<lparr>deleted := deleted m \<or> mid m \<in> set ids\<rparr>) (MeetingHistory s)"
      and "[m \<leftarrow> MeetingHistory s. mid m \<in> set (ids @ extra)] =
           [m \<leftarrow> MeetingHistory s. mid m \<in> set ids]"
      and "[m \<leftarrow> MeetingHistory s. mid m \<in> set (ids @ extra) \<and> \<not> deleted m] =
           [m \<leftarrow> MeetingHistory s. mid m \<in> set ids \<and> \<not> deleted m]"
      by (auto intro: filter_cong)
    then show ?thesis
      by (simp only: run first)
  qed
  from first second show ?thesis by blast
qed

theorem deleteMany_exact_witness:
  "body (request 1 (Uncastable []) [] [ObjectIdString 7, ObjectIdString 5, ObjectIdString 8]) =
     map ObjectIdString [7, 5, 8]
   \<and> deleteMany store1
       (request 1 (Uncastable []) [] [ObjectIdString 7, ObjectIdString 5, ObjectIdString 8]) =
       (store1\<lparr>MeetingHistory :=
           [meeting_of 7 1 True, meeting_of 8 2 True, meeting_of 9 1 True]\<rparr>,
        \<lparr> status = 200,
          payload = UpdatedMany ''Meetings deleted successfully''
                      \<lparr> matchedCount = 2, modifiedCount = 2 \<rparr> \<rparr>)"
  using deleteMany_exact
    [where req = "request 1 (Uncastable []) [] [ObjectIdString 7, ObjectIdString 5, ObjectIdString 8]"
       and ids = "[7, 5, 8]" and s = store1 and extra = "[]"]
  by (simp add: fixtures)

text \<open>
  Claim C9. Neither delete handler looks at the actor: replacing the identity of the
  request by any other leaves the new store and the answer of \<open>deleteData\<close> and of
  \<open>deleteMany\<close> the same, and so does replacing the collection of users, where the
  roles are kept (the meetings after the call and the answer do not depend on it).
\<close>

theorem delete_ignores_actor:
  "deleteData s (req\<lparr>userId := a\<rparr>) = deleteData s req
   \<and> deleteMany s (reqs\<lparr>userId := a\<rparr>) = deleteMany s reqs
   \<and> snd (deleteData (s\<lparr>User := us\<rparr>) req) = snd (deleteData s req)
   \<and> MeetingHistory (fst (deleteData (s\<lparr>User := us\<rparr>) req)) =
       MeetingHistory (fst (deleteData s req))
   \<and> snd (deleteMany (s\<lparr>User := us\<rparr>) reqs) = snd (deleteMany s reqs)
   \<and> MeetingHistory (fst (deleteMany (s\<lparr>User := us\<rparr>) reqs)) =
       MeetingHistory (fst (deleteMany s reqs))"
  by (simp add: deleteData_def deleteMany_def findByIdAndUpdate_def updateMany_def
      split: sum.splits)

theorem delete_ignores_actor_witness:
  "deleteData store1 (request 1 (ObjectIdString 8) [] ()) =
     (store1\<lparr>MeetingHistory := [meeting_of 7 1 False, meeting_of 8 2 True, meeting_of 9 1 True]\<rparr>,
      \<lparr> status = 200,
        payload = Updated ''Meeting deleted successfully'' (Some (meeting_of 8 2 False)) \<rparr>)
   \<and> deleteData store1 ((request 1 (ObjectIdString 8) [] ())\<lparr>userId := 2\<rparr>) =
       deleteData store1 (request 1 (ObjectIdString 8) [] ())
   \<and> deleteMany store1 ((request 1 (Uncastable []) [] [ObjectIdString 8])\<lparr>userId := 2\<rparr>) =
       deleteMany store1 (request 1 (Uncastable []) [] [ObjectIdString 8])"
  using delete_ignores_actor [where s = store1 and req = "request 1 (ObjectIdString 8) [] ()"
      and a = 2 and reqs = "request 1 (Uncastable []) [] [ObjectIdString 8]" and us = "[]"]
  by (simp add: fixtures deleteData_def findByIdAndUpdate_def findOne_def)

section \<open>The list operation\<close>

lemma index_aggregate_sound:
  assumes "index_aggregate s ops q = Inr rs" and "r \<in> set rs"
  shows "\<exists>ms m. match ops q (MeetingHistory s) = Inr ms \<and> m \<in> set ms \<and> mid m = r_id r"
proof -
  from assms(1) obtain ms where ms: "match ops q (MeetingHistory s) = Inr ms"
    and tr: "traverse index_project (concat (map (index_row s) ms)) = Inr rs"
    by (auto simp: index_aggregate_def split: sum.splits)
  from traverse_Inr_D [OF tr assms(2)] obtain row where
    row: "row \<in> set (concat (map (index_row s) ms))" "index_project row = Inr r"
    by blast
  from row(1) have "fst row \<in> set ms"
    by (auto simp: index_row_def)
  moreover from row(2) have "mid (fst row) = r_id r"
    by (auto simp: index_project_def split: sum.splits)
  ultimately show ?thesis using ms by blast
qed

text \<open>
  The filter that \<open>index\<close> passes to the store always carries \<open>deleted: false\<close>,
  and no summary it returns is the summary of a record with \<open>deleted\<close> equal to true.
\<close>

lemma index_query_deleted_entry: "(''deleted'', QBool False) \<in> set (index_query s req)"
  by (simp add: index_query_def Let_def in_set_update in_set_update_other)

lemma index_query_deleted: "map_of (index_query s req) ''deleted'' = Some (QBool False)"
  by (simp add: index_query_def Let_def AList.update_conv')

lemma index_excludes_deleted:
  assumes "index s ops req = \<lparr> status = 200, payload = Summaries rs \<rparr>" and "r \<in> set rs"
  shows "\<exists>m \<in> set (MeetingHistory s). mid m = r_id r \<and> \<not> deleted m"
proof -
  from assms(1) have "index_aggregate s ops (index_query s req) = Inr rs"
    by (auto simp: index_def split: sum.splits)
  from index_aggregate_sound [OF this assms(2)] obtain ms m where
    m: "match ops (index_query s req) (MeetingHistory s) = Inr ms" "m \<in> set ms" "mid m = r_id r"
    by blast
  have "m \<in> set (MeetingHistory s) \<and> field_is m ''deleted'' (QBool False)"
    by (rule match_sound [OF m(1) m(2) index_query_deleted_entry]) (simp_all add: is_operator_def)
  with m(3) show ?thesis by auto
qed

lemma index_query_restricted:
  assumes "map_option role (findById (User s) (userId req)) \<noteq> Some ''superAdmin''"
  shows "index_query s req =
           AList.update ''createBy'' (QOid (userId req))
             (AList.update ''deleted'' (QBool False) (query req))"
  using assms by (simp add: index_query_def Let_def)

lemma index_restricted_results:
  assumes "map_option role (findById (User s) (userId req)) \<noteq> Some ''superAdmin''"
    and "index s ops req = \<lparr> status = 200, payload = Summaries rs \<rparr>" and "r \<in> set rs"
  shows "\<exists>m \<in> set (MeetingHistory s). mid m = r_id r \<and> createBy m = userId req"
proof -
  from assms(2) have "index_aggregate s ops (index_query s req) = Inr rs"
    by (auto simp: index_def split: sum.splits)
  from index_aggregate_sound [OF this assms(3)] obtain ms m where
    m: "match ops (index_query s req) (MeetingHistory s) = Inr ms" "m \<in> set ms" "mid m = r_id r"
    by blast
  have "(''createBy'', QOid (userId req)) \<in> set (index_query s req)"
    by (simp add: index_query_restricted [OF assms(1)] in_set_update)
  from match_sound [OF m(1) m(2) this]
  have "m \<in> set (MeetingHistory s) \<and> field_is m ''createBy'' (QOid (userId req))"
    by (simp add: is_operator_def)
  with m(3) show ?thesis by auto
qed

text \<open>
  Claim C2. For an actor whose user document has a role other than \<open>superAdmin\<close>, and
  for every query of the caller (also one with a \<open>createBy\<close> entry of its own), the
  filter that \<open>index\<close> passes to the store has \<open>createBy\<close> equal to the actor's
  identity, and every summary returned is the summary of a meeting created by the actor.
  For a \<open>superAdmin\<close> the filter is the caller's query with \<open>deleted: false\<close> and
  nothing else: its \<open>createBy\<close> entry is whatever the caller supplied. (The controller
  names the creator field \<open>createBy\<close>.)
\<close>

theorem index_creator_filter:
  assumes "findById (User s) (userId req) = Some u"
  shows "(role u \<noteq> ''superAdmin'' \<longrightarrow>
            map_of (index_query s req) ''createBy'' = Some (QOid (userId req))
          \<and> (\<forall>rs. index s ops req = \<lparr> status = 200, payload = Summaries rs \<rparr> \<longrightarrow>
                (\<forall>r \<in> set rs. \<exists>m \<in> set (MeetingHistory s).
                   mid m = r_id r \<and> createBy m = userId req)))
       \<and> (role u = ''superAdmin'' \<longrightarrow>
            index_query s req = AList.update ''deleted'' (QBool False) (query req)
          \<and> map_of (index_query s req) ''createBy'' = map_of (query req) ''createBy'')"
proof (intro conjI impI allI ballI)
  assume r: "role u \<noteq> ''superAdmin''"
  with assms have ns: "map_option role (findById (User s) (userId req)) \<noteq> Some ''superAdmin''"
    by simp
  show "map_of (index_query s req) ''createBy'' = Some (QOid (userId req))"
    by (simp add: index_query_restricted [OF ns] AList.update_conv')
  fix rs r
  assume "index s ops req = \<lparr> status = 200, payload = Summaries rs \<rparr>" and "r \<in> set rs"
  then show "\<exists>m \<in> set (MeetingHistory s). mid m = r_id r \<and> createBy m = userId req"
    by (rule index_restricted_results [OF ns])
next
  assume r: "role u = ''superAdmin''"
  with assms show q: "index_query s req = AList.update ''deleted'' (QBool False) (query req)"
    by (simp add: index_query_def Let_def)
  show "map_of (index_query s req) ''createBy'' = map_of (query req) ''createBy''"
    by (simp add: q AList.update_conv')
qed

theorem index_creator_filter_witness:
  "findById (User store1) (userId (request 1 (Uncastable []) [(''createBy'', QOid 2)] ())) = Some ann
   \<and> role ann \<noteq> ''superAdmin''
   \<and> map_of (index_query store1 (request 1 (Uncastable []) [(''createBy'', QOid 2)] ()))
        ''createBy'' = Some (QOid 1)
   \<and> index store1 reject (request 1 (Uncastable []) [(''createBy'', QOid 2)] ()) =
       \<lparr> status = 200,
         payload = Summaries [\<lparr> r_id = 7, r_agenda = Some ''Weekly'', r_dateTime = None,
                                r_timestamp = 0, createdByName = Some ''Ann Lee'' \<rparr>] \<rparr>
   \<and> findById (User store1) (userId (request 2 (Uncastable []) [(''createBy'', QOid 1)] ())) = Some root
   \<and> role root = ''superAdmin''
   \<and> index_query store1 (request 2 (Uncastable []) [(''createBy'', QOid 1)] ()) =
       [(''createBy'', QOid 1), (''deleted'', QBool False)]
   \<and> index_query store1 (request 2 (Uncastable []) [] ()) = [(''deleted'', QBool False)]"
  using index_creator_filter
      [where s = store1 and req = "request 1 (Uncastable []) [(''createBy'', QOid 2)] ()"
         and u = ann and ops = reject]
    index_creator_filter
      [where s = store1 and req = "request 2 (Uncastable []) [(''createBy'', QOid 1)] ()"
         and u = root and ops = reject]
    index_creator_filter
      [where s = store1 and req = "request 2 (Uncastable []) [] ()" and u = root and ops = reject]
  by (simp add: fixtures index_defs)

text \<open>
  Claim C10. When the lookup of the actor's user document finds nothing, \<open>index\<close>
  treats the actor as it treats one who is not \<open>superAdmin\<close>: the filter is the
  caller's query with \<open>deleted: false\<close> and \<open>createBy\<close> set to the actor's
  identity, the request goes on to the aggregation as any other (it answers 200 with
  the summaries, or 500 when the store rejects the filter), and every summary returned is
  the summary of a meeting whose creator reference is that identity.
\<close>

theorem index_dangling_identity:
  assumes "findById (User s) (userId req) = None"
  shows "index_query s req =
           AList.update ''createBy'' (QOid (userId req))
             (AList.update ''deleted'' (QBool False) (query req))
       \<and> map_of (index_query s req) ''createBy'' = Some (QOid (userId req))
       \<and> index s ops req =
           (case index_aggregate s ops (index_query s req) of
              Inr result \<Rightarrow> \<lparr> status = 200, payload = Summaries result \<rparr>
            | Inl error \<Rightarrow> \<lparr> status = 500, payload = Text ''Internal Server Error'' \<rparr>)
       \<and> (\<forall>rs. index s ops req = \<lparr> status = 200, payload = Summaries rs \<rparr> \<longrightarrow>
             (\<forall>r \<in> set rs. \<exists>m \<in> set (MeetingHistory s).
                mid m = r_id r \<and> createBy m = userId req))"
proof -
  from assms have ns: "map_option role (findById (User s) (userId req)) \<noteq> Some ''superAdmin''"
    by simp
  have "index_query s req =
           AList.update ''createBy'' (QOid (userId req))
             (AList.update ''deleted'' (QBool False) (query req))"
    by (rule index_query_restricted [OF ns])
  moreover have "map_of (index_query s req) ''createBy'' = Some (QOid (userId req))"
    by (simp add: index_query_restricted [OF ns] AList.update_conv')
  moreover have "index s ops req =
           (case index_aggregate s ops (index_query s req) of
              Inr result \<Rightarrow> \<lparr> status = 200, payload = Summaries result \<rparr>
            | Inl error \<Rightarrow> \<lparr> status = 500, payload = Text ''Internal Server Error'' \<rparr>)"
    by (simp add: index_def)
  moreover have "\<forall>rs. index s ops req = \<lparr> status = 200, payload = Summaries rs \<rparr> \<longrightarrow>
             (\<forall>r \<in> set rs. \<exists>m \<in> set (MeetingHistory s).
                mid m = r_id r \<and> createBy m = userId req)"
    using index_restricted_results [OF ns] by blast
  ultimately show ?thesis by blast
qed

theorem index_dangling_identity_witness:
  "findById (User store1) (userId (request 3 (Uncastable []) [] ())) = None
   \<and> index_query store1 (request 3 (Uncastable []) [] ()) =
       [(''deleted'', QBool False), (''createBy'', QOid 3)]
   \<and> index store1 reject (request 3 (Uncastable []) [] ()) =
       \<lparr> status = 200, payload = Summaries [] \<rparr>"
  using index_dangling_identity
    [where s = store1 and req = "request 3 (Uncastable []) [] ()" and ops = reject]
  by (simp add: fixtures index_defs)

section \<open>The view operation\<close>

text \<open>
  Claim C6. For every id that matches no stored meeting, \<open>view\<close> answers 404 with
  the message \<open>No meeting found.\<close> The other failures answer 400 with the message of
  the failure: a path segment that cannot be cast to an object id, and an aggregation
  that fails for a meeting that exists.
\<close>

theorem view_not_found:
  assumes "params_id req = ObjectIdString i" and "i \<notin> mid ` set (MeetingHistory s)"
  shows "view s req = \<lparr> status = 404, payload = Message ''No meeting found.'' \<rparr>
       \<and> view s (req\<lparr>params_id := Uncastable v\<rparr>) =
           \<lparr> status = 400, payload = ErrorMessage (CastError v) \<rparr>
       \<and> (\<forall>s' j e. j \<in> mid ` set (MeetingHistory s') \<and> view_aggregate s' j = Inl e \<longrightarrow>
             view s' (req\<lparr>params_id := ObjectIdString j\<rparr>) =
               \<lparr> status = 400, payload = ErrorMessage e \<rparr>)"
proof (intro conjI allI impI)
  from assms(2) have "findOne (MeetingHistory s) i = None"
    by (simp add: findOne_None_iff)
  with assms(1) show "view s req = \<lparr> status = 404, payload = Message ''No meeting found.'' \<rparr>"
    by (simp add: view_def)
next
  show "view s (req\<lparr>params_id := Uncastable v\<rparr>) =
          \<lparr> status = 400, payload = ErrorMessage (CastError v) \<rparr>"
    by (simp add: view_def)
next
  fix s' j e
  assume a: "j \<in> mid ` set (MeetingHistory s') \<and> view_aggregate s' j = Inl e"
  then obtain m where m: "findOne (MeetingHistory s') j = Some m"
    using findOne_None_iff [of "MeetingHistory s'" j] by (cases "findOne (MeetingHistory s') j") auto
  then have "mid m = j"
    by (auto simp: findOne_def dest: find_Some_iff [THEN iffD1])
  with a m show "view s' (req\<lparr>params_id := ObjectIdString j\<rparr>) =
               \<lparr> status = 400, payload = ErrorMessage e \<rparr>"
    by (simp add: view_def)
qed

theorem view_not_found_witness:
  "params_id (request 1 (ObjectIdString 5) [] ()) = ObjectIdString 5
   \<and> 5 \<notin> mid ` set (MeetingHistory store1)
   \<and> view store1 (request 1 (ObjectIdString 5) [] ()) =
       \<lparr> status = 404, payload = Message ''No meeting found.'' \<rparr>
   \<and> view store1 (request 1 (Uncastable ''abc'') [] ()) =
       \<lparr> status = 400, payload = ErrorMessage (CastError ''abc'') \<rparr>
   \<and> 7 \<in> mid ` set (MeetingHistory store2)
   \<and> view_aggregate store2 7 = Inl MapInputNotArray
   \<and> view store2 (request 1 (ObjectIdString 7) [] ()) =
       \<lparr> status = 400, payload = ErrorMessage MapInputNotArray \<rparr>"
proof -
  have h1: "params_id (request 1 (ObjectIdString 5) [] ()) = ObjectIdString 5"
    by (simp add: request_def)
  have h2: "5 \<notin> mid ` set (MeetingHistory store1)"
    by (simp add: fixtures)
  have h3: "7 \<in> mid ` set (MeetingHistory store2) \<and> view_aggregate store2 7 = Inl MapInputNotArray"
    by (simp add: fixtures view_defs)
  note t = view_not_found [OF h1 h2, of "''abc''"]
  from t have "view store2 ((request 1 (ObjectIdString 5) [] ())\<lparr>params_id := ObjectIdString 7\<rparr>) =
       \<lparr> status = 400, payload = ErrorMessage MapInputNotArray \<rparr>"
    using h3 by blast
  with t h1 h2 h3 show ?thesis
    by (simp add: request_def)
qed

text \<open>
  Claim C1. The list operation never returns a record with \<open>deleted\<close> equal to true
  (\<open>index_query_deleted\<close>, \<open>index_excludes_deleted\<close>). The view operation has no such
  filter: a meeting is created, then soft-deleted by \<open>deleteData\<close>, so that its
  \<open>deleted\<close> flag is true; \<open>view\<close> of its id still answers 200 with the record.
\<close>

theorem view_returns_soft_deleted:
  "map deleted (MeetingHistory (fst (deleteData
       (fst (add store0 5 102 (request 1 (Uncastable []) [] solo_body)))
       (request 2 (ObjectIdString 102) [] ())))) = [True]
   \<and> view (fst (deleteData
       (fst (add store0 5 102 (request 1 (Uncastable []) [] solo_body)))
       (request 2 (ObjectIdString 102) [] ())))
        (request 1 (ObjectIdString 102) [] ()) =
       \<lparr> status = 200,
         payload = Detail \<lparr> r_id = 102, r_agenda = Some ''Plan'',
                     r_dateTime = Some ''2024-03-03T08:00:00Z'', r_timestamp = 5,
                     createdByName = Some ''Ann Lee'', r_location = Some ''Desk'',
                     attendesNames = None, r_notes = None \<rparr> \<rparr>"
  by (simp add: fixtures view_defs add_defs deleteData_def findByIdAndUpdate_def)

text \<open>
  Claim C3. A meeting is created by user 1 (Ann Lee) with the agenda \<open>Sync\<close> and the
  attendee references 11 and 12, both existing contacts (Bo Chen, Cy Diaz); \<open>add\<close>
  answers 200 with the record, whose id is 100. The \<open>view\<close> of that id does not yield
  the agenda, the creator's name and the two attendee names: the pipeline unwinds
  \<open>attendesData\<close> before it maps over it, \<open>$map\<close> gets a document where it needs
  an array, the aggregation fails and \<open>view\<close> answers 400.
\<close>

theorem view_attendees_fails:
  "add store0 5 100 (request 1 (Uncastable []) [] sync_body) =
     (store0\<lparr>MeetingHistory :=
        [\<lparr> mid = 100, agenda = Some ''Sync'', dateTime = Some ''2024-01-01T10:00:00Z'',
           timestamp = 5, location = None, notes = None, createBy = 1,
           attendes = [11, 12], deleted = False \<rparr>]\<rparr>,
      \<lparr> status = 200,
        payload = Doc \<lparr> mid = 100, agenda = Some ''Sync'',
                        dateTime = Some ''2024-01-01T10:00:00Z'',
           timestamp = 5, location = None, notes = None, createBy = 1,
           attendes = [11, 12], deleted = False \<rparr> \<rparr>)
   \<and> view (fst (add store0 5 100 (request 1 (Uncastable []) [] sync_body)))
        (request 1 (ObjectIdString 100) [] ()) =
       \<lparr> status = 400, payload = ErrorMessage MapInputNotArray \<rparr>"
  by (simp add: fixtures view_defs add_defs)

text \<open>
  The round trip holds for every body none of whose attendee references matches a stored
  contact: when \<open>add\<close> answers 200 with the record, \<open>view\<close> of the record's id
  answers 200 with the agenda, dateTime, location and notes of the body.
\<close>

lemma traverse_view_project_no_attendee:
  "\<forall>u \<in> set us. u = Absent \<or> (\<exists>y. u = Single y) \<Longrightarrow>
   traverse view_project (map (\<lambda>u. (m, u, Absent)) us) = Inr (map (detail_of m) us)"
  by (induction us) (auto simp: view_project_def)

lemma add_view_roundtrip:
  assumes ok: "add s now newId req = (s', \<lparr> status = 200, payload = Doc d \<rparr>)"
    and none: "\<forall>c \<in> set (Contacts s). pid c \<notin> set (b_attendes (body req))"
  shows "\<exists>r. view s' (req'\<lparr>params_id := ObjectIdString (mid d)\<rparr>) =
               \<lparr> status = 200, payload = Detail r \<rparr>
           \<and> r_agenda r = b_agenda (body req) \<and> r_dateTime r = b_dateTime (body req)
           \<and> r_location r = b_location (body req) \<and> r_notes r = b_notes (body req)"
proof -
  from ok obtain c where c: "b_createBy (body req) = Some c"
    and fresh: "newId \<notin> mid ` set (MeetingHistory s)"
    and s': "s' = s\<lparr>MeetingHistory := MeetingHistory s @ [d]\<rparr>"
    and d: "mid d = newId" "agenda d = b_agenda (body req)" "dateTime d = b_dateTime (body req)"
      "location d = b_location (body req)" "notes d = b_notes (body req)"
      "attendes d = b_attendes (body req)"
    by (auto simp: add_def save_def Let_def split: option.splits if_splits)
  from fresh have nofound: "\<not> (\<exists>x \<in> set (MeetingHistory s). mid x = newId)"
    by auto
  have found: "findOne (MeetingHistory s') (mid d) = Some d"
    by (simp add: s' findOne_def d(1) find_appended [OF nofound])
  have matched: "[m \<leftarrow> MeetingHistory s'. mid m = mid d] = [d]"
    using nofound by (simp add: s' d(1) filter_empty_conv)
  from none have "[p \<leftarrow> Contacts s'. pid p \<in> set (attendes d)] = []"
    by (auto simp: s' d(6) filter_empty_conv)
  then have rows: "view_rows s' d =
      map (\<lambda>u. (d, u, Absent)) (unwind (lookup (User s') [createBy d]))"
    by (simp add: view_rows_def lookup_def)
  define us where "us = unwind (lookup (User s') [createBy d])"
  have "us \<noteq> []" and mem: "\<forall>u \<in> set us. u = Absent \<or> (\<exists>y. u = Single y)"
    by (auto simp: us_def unwind_nonempty dest: unwind_members)
  then obtain u us' where us: "us = u # us'"
    by (cases us) auto
  have "view_aggregate s' (mid d) = Inr (map (detail_of d) us)"
    by (simp add: view_aggregate_def matched rows us_def [symmetric]
        traverse_view_project_no_attendee [OF mem])
  then have "view s' (req'\<lparr>params_id := ObjectIdString (mid d)\<rparr>) =
      \<lparr> status = 200, payload = Detail (detail_of d u) \<rparr>"
    by (simp add: view_def found us)
  then show ?thesis
    by (simp add: d)
qed

text \<open>
  Claim C4. The round trip does not hold for every body. A meeting is created with the
  agenda \<open>Retro\<close>, a dateTime, the location \<open>Room 4\<close>, the notes
  \<open>Bring charts\<close> and one attendee reference, 12, an existing contact; \<open>add\<close>
  answers 200. The \<open>view\<close> of the new id answers 400 with the failure of \<open>$map\<close>
  and returns none of the four values.
\<close>

theorem view_roundtrip_fails:
  "status (snd (add store0 5 101 (request 1 (Uncastable []) [] retro_body))) = 200
   \<and> view (fst (add store0 5 101 (request 1 (Uncastable []) [] retro_body)))
        (request 1 (ObjectIdString 101) [] ()) =
       \<lparr> status = 400, payload = ErrorMessage MapInputNotArray \<rparr>"
  by (simp add: fixtures view_defs add_defs)

end
